theory Spec2Isabelle
  imports Complex_Main "HOL-Library.Word"
begin

section \<open>The Arduino sketch: level sensor adapter and pump actuator\<close>

text \<open>
  The sketch is written for an AVR board: \<^verbatim>\<open>unsigned int\<close> is a 16-bit word and both
  \<^verbatim>\<open>float\<close> and \<^verbatim>\<open>double\<close> are the same binary floating-point format. A float is
  modelled by the rational number it denotes, and every floating-point operation by the
  exact operation followed by the rounding function \<open>rnd\<close> of the format, which the
  model takes as a parameter. What we use of a rounding function is collected in
  \<open>float_rounding\<close>: it is monotone and leaves the representable numbers 0, 1 and 100
  as they are. Rounding to nearest of any binary format satisfies this.
\<close>

definition float_rounding :: "(rat \<Rightarrow> rat) \<Rightarrow> bool" where
  "float_rounding rnd \<longleftrightarrow> mono rnd \<and> rnd 0 = 0 \<and> rnd 1 = 1 \<and> rnd 100 = 100"

text \<open>\<^verbatim>\<open>#define MIN_DISTANCE 4\<close>, \<^verbatim>\<open>#define MAX_DISTANCE 11\<close>: where they meet the
  \<^verbatim>\<open>unsigned int distance\<close> they are converted to its type.\<close>

definition MIN_DISTANCE :: "16 word" where
  "MIN_DISTANCE = 4"

definition MAX_DISTANCE :: "16 word" where
  "MAX_DISTANCE = 11"

definition RELAY_ACTIVE_HIGH :: bool where
  "RELAY_ACTIVE_HIGH = True"

datatype pin_level = LOW | HIGH

text \<open>
  \<^verbatim>\<open>getLevelPercent\<close>, with the result of \<^verbatim>\<open>sonar.ping_cm()\<close> as the argument
  \<open>distance\<close> (0 is the library's value for "no echo"). The conversions of the small
  integers \<open>MAX_DISTANCE - distance\<close> and \<open>MAX_DISTANCE - MIN_DISTANCE\<close> to float are
  exact; the division and the multiplication by 100.0 round.
\<close>

definition getLevelPercent :: "(rat \<Rightarrow> rat) \<Rightarrow> 16 word \<Rightarrow> rat" where
  "getLevelPercent rnd distance =
     (if distance = 0 then 0
      else if distance \<le> MIN_DISTANCE then 100
      else if distance \<ge> MAX_DISTANCE then 0
      else rnd (rnd (of_nat (unat (MAX_DISTANCE - distance))
                      / of_nat (unat (MAX_DISTANCE - MIN_DISTANCE))) * 100))"

text \<open>
  The state of the board: the two output pins the sketch writes, the global
  \<^verbatim>\<open>prev_pump_state\<close>, the bytes received on the serial line and not yet read, the
  telemetry lines printed so far (a line \<^verbatim>\<open>level,prev_pump_state\<close> is kept as the pair
  of its two values), and the time in milliseconds that the \<^verbatim>\<open>delay\<close> calls have let
  pass.
\<close>

record sketch =
  relay_pin :: pin_level
  led_pin :: pin_level
  prev_pump_state :: int
  serial_rx :: "char list"
  serial_tx :: "(rat \<times> int) list"
  elapsed_ms :: nat

text \<open>The state after power-on and \<^verbatim>\<open>setup()\<close>: the relay pin is written inactive.\<close>

definition sketch_setup :: sketch where
  "sketch_setup =
     \<lparr>relay_pin = (if RELAY_ACTIVE_HIGH then LOW else HIGH), led_pin = LOW,
      prev_pump_state = 0, serial_rx = [], serial_tx = [], elapsed_ms = 0\<rparr>"

definition controlPump :: "char \<Rightarrow> sketch \<Rightarrow> sketch" where
  "controlPump cmd s =
     (if cmd = CHR ''0'' then
        s\<lparr>relay_pin := (if RELAY_ACTIVE_HIGH then LOW else HIGH), prev_pump_state := 0\<rparr>
      else if cmd = CHR ''1'' then
        s\<lparr>relay_pin := (if RELAY_ACTIVE_HIGH then HIGH else LOW), led_pin := HIGH,
          prev_pump_state := 1\<rparr>
      else s)"

text \<open>
  One pass of \<^verbatim>\<open>loop()\<close>: read the level, print the telemetry line, execute one
  pending command byte if there is one, wait 500 ms.
\<close>

definition loop :: "(rat \<Rightarrow> rat) \<Rightarrow> 16 word \<Rightarrow> sketch \<Rightarrow> sketch" where
  "loop rnd distance s =
     (let level = getLevelPercent rnd distance;
          s1 = s\<lparr>serial_tx := serial_tx s @ [(level, prev_pump_state s)]\<rparr>;
          s2 = (case serial_rx s1 of
                  [] \<Rightarrow> s1
                | command # rest \<Rightarrow> controlPump command (s1\<lparr>serial_rx := rest\<rparr>))
      in s2\<lparr>elapsed_ms := elapsed_ms s2 + 500\<rparr>)"

text \<open>The host writes bytes to the serial line between two passes of the loop.\<close>

definition receive :: "char list \<Rightarrow> sketch \<Rightarrow> sketch" where
  "receive bytes s = s\<lparr>serial_rx := serial_rx s @ bytes\<rparr>"

text \<open>Two states used in the scenarios below: the board after the pass that executed
  the command \<open>1\<close>, and the board after the next pass, which executed the command \<open>0\<close>.
  The reading is 11 on both passes.\<close>

definition pump_on_state :: sketch where
  "pump_on_state = loop id 11 (receive ''1'' sketch_setup)"

definition pump_off_state :: sketch where
  "pump_off_state = loop id 11 (receive ''0'' pump_on_state)"

text \<open>The states the board can be in: it starts from \<open>sketch_setup\<close>; the host sends
  bytes; the loop runs, with any reading.\<close>

inductive reachable :: "sketch \<Rightarrow> bool" where
  start: "reachable sketch_setup"
| bytes: "reachable s \<Longrightarrow> reachable (receive bs s)"
| pass: "reachable s \<Longrightarrow> reachable (loop rnd distance s)"


section \<open>The dashboard: stored credentials and reported issues\<close>

subsection \<open>Values, \<^verbatim>\<open>JSON\<close> and the browser's storage\<close>

text \<open>
  The values \<^verbatim>\<open>JSON.parse\<close> can return. A number is kept as the rational it denotes.
  The two built-in functions are not code of the dashboard: the model takes
  \<^verbatim>\<open>JSON.parse\<close> as a parameter \<open>parse\<close> that returns a value or throws, and
  \<^verbatim>\<open>JSON.stringify\<close> as a parameter \<open>stringify\<close>.
\<close>

datatype json =
    JNull
  | JBool bool
  | JNum rat
  | JStr string
  | JArr "json list"
  | JObj "(string \<times> json) list"

datatype js_error = SyntaxError | TypeError

text \<open>
  Reading a property \<open>v.k\<close>, for the names \<open>username\<close> and \<open>password\<close> read below:
  on \<^verbatim>\<open>null\<close> it throws a TypeError, on an object it is the member of that name or
  \<^verbatim>\<open>undefined\<close> (here \<open>None\<close>), on every other value it is \<^verbatim>\<open>undefined\<close>.
\<close>

fun get_property :: "json \<Rightarrow> string \<Rightarrow> js_error + json option" where
  "get_property JNull k = Inl TypeError"
| "get_property (JObj members) k = Inr (map_of members k)"
| "get_property v k = Inr None"

text \<open>The values that \<^verbatim>\<open>!v\<close> does not negate to true.\<close>

fun truthy :: "json option \<Rightarrow> bool" where
  "truthy None = False"
| "truthy (Some JNull) = False"
| "truthy (Some (JBool b)) = b"
| "truthy (Some (JNum n)) = (n \<noteq> 0)"
| "truthy (Some (JStr s)) = (s \<noteq> [])"
| "truthy (Some (JArr vs)) = True"
| "truthy (Some (JObj members)) = True"

text \<open>
  The environment of the dashboard's functions: whether \<^verbatim>\<open>window\<close> is defined (it is
  not while a page is rendered on the server), and the content of \<^verbatim>\<open>localStorage\<close>.
\<close>

record browser =
  window_defined :: bool
  localStorage :: "string \<rightharpoonup> string"

subsection \<open>\<^verbatim>\<open>lib/api.ts\<close>: stored credentials\<close>

record BasicCreds =
  username :: string
  password :: string

text \<open>The object \<^verbatim>\<open>{ username, password }\<close> that a \<open>BasicCreds\<close> is at run time.\<close>

definition creds_object :: "BasicCreds \<Rightarrow> json" where
  "creds_object creds =
     JObj [(''username'', JStr (BasicCreds.username creds)),
           (''password'', JStr (BasicCreds.password creds))]"

definition persistCredentials :: "(json \<Rightarrow> string) \<Rightarrow> BasicCreds \<Rightarrow> browser \<Rightarrow> browser" where
  "persistCredentials stringify creds env =
     (if \<not> window_defined env then env
      else env\<lparr>localStorage :=
             (localStorage env)(''water-tank-creds'' \<mapsto> stringify (creds_object creds))\<rparr>)"

text \<open>
  \<^verbatim>\<open>loadCredentials\<close> returns the parsed value as it is (the cast to \<open>BasicCreds\<close> checks
  nothing), or \<^verbatim>\<open>null\<close>, here \<open>None\<close>. An exception thrown inside the \<^verbatim>\<open>try\<close> block,
  by \<^verbatim>\<open>JSON.parse\<close> or by reading a property of \<^verbatim>\<open>null\<close>, is caught and gives
  \<^verbatim>\<open>null\<close>. The second operand of \<^verbatim>\<open>||\<close> is evaluated only when the first is false.
\<close>

definition loadCredentials :: "(string \<Rightarrow> js_error + json) \<Rightarrow> browser \<Rightarrow> json option" where
  "loadCredentials parse env =
     (if \<not> window_defined env then None
      else case localStorage env ''water-tank-creds'' of
        None \<Rightarrow> None
      | Some raw \<Rightarrow>
          if raw = [] then None
          else (case parse raw of
              Inl e \<Rightarrow> None
            | Inr parsed \<Rightarrow>
                (case get_property parsed ''username'' of
                  Inl e \<Rightarrow> None
                | Inr u \<Rightarrow>
                    if \<not> truthy u then None
                    else (case get_property parsed ''password'' of
                        Inl e \<Rightarrow> None
                      | Inr p \<Rightarrow> if \<not> truthy p then None else Some parsed))))"

text \<open>
  What the round trip needs of the two built-in functions, at one value \<open>v\<close>: the text
  \<^verbatim>\<open>JSON.stringify\<close> produces for it is not empty, and \<^verbatim>\<open>JSON.parse\<close> reads it back.
\<close>

definition JSON_reads_back :: "(string \<Rightarrow> js_error + json) \<Rightarrow> (json \<Rightarrow> string) \<Rightarrow> json \<Rightarrow> bool" where
  "JSON_reads_back parse stringify v \<longleftrightarrow> stringify v \<noteq> [] \<and> parse (stringify v) = Inr v"

subsection \<open>\<^verbatim>\<open>components/Issues.tsx\<close>: reported issues\<close>

datatype category = Leak | Pump | Sensor | Other

text \<open>
  An issue. The record is extensible: an object read back from storage may carry
  further members, and the spread \<^verbatim>\<open>{ ...issue, resolved: ... }\<close> copies them.
\<close>

record Issue =
  id' :: string
  title :: string
  description :: string
  category :: category
  timestamp :: string
  username :: string
  resolved :: bool

definition LOCAL_STORAGE_KEY :: string where
  "LOCAL_STORAGE_KEY = ''water_tank_issues''"

definition saveIssues ::
  "('a Issue_scheme list \<Rightarrow> string) \<Rightarrow> 'a Issue_scheme list \<Rightarrow> (string \<rightharpoonup> string) \<Rightarrow> (string \<rightharpoonup> string)" where
  "saveIssues stringify issues storage = storage(LOCAL_STORAGE_KEY \<mapsto> stringify issues)"

text \<open>The state of the \<open>ViewIssues\<close> component that its handlers read and write: the
  \<open>issues\<close> it holds and the browser's storage.\<close>

record 'a ViewIssues =
  issues :: "'a Issue_scheme list"
  storage :: "string \<rightharpoonup> string"

definition toggleResolved ::
  "('a Issue_scheme list \<Rightarrow> string) \<Rightarrow> string \<Rightarrow> 'a ViewIssues \<Rightarrow> 'a ViewIssues" where
  "toggleResolved stringify ident v =
     (let updated = map (\<lambda>issue. if id' issue = ident
                                   then issue\<lparr>resolved := \<not> resolved issue\<rparr>
                                   else issue) (issues v)
      in v\<lparr>issues := updated, storage := saveIssues stringify updated (storage v)\<rparr>)"


section \<open>The consumption tracker and predictor\<close>

text \<open>
  The tracker and the predictor belong to the Python control loop that the start script
  runs. That code is not among the sources, which hold only the script that starts it
  and the dashboard that shows its figures. The definitions of this section are
  therefore written from the design document (its sections 3 and 4.4). Levels and
  amounts are rationals; a calendar day is its number.
\<close>

text \<open>Modelled from the spec: \<open>PumpState\<close>, the state of the missing controller
  that the tracker reads.\<close>

datatype PumpState = Off | On

text \<open>Modelled from the spec: \<open>ConsumptionLedger\<close>, the mapping from calendar day to the
  amount consumed, with the rolling history of finalized days (oldest first) and the
  day whose entry is open. The tracker that owns it is missing from the sources.\<close>

record ConsumptionLedger =
  day_totals :: "nat \<rightharpoonup> rat"
  history :: "rat list"
  current_day :: nat

text \<open>Modelled from the spec: what the missing tracker is given on one tick: the pump
  state, the previous and the current smoothed level, the calendar day, and whether
  a leak scan is concurrently classified as a leak.\<close>

record TrackerTick =
  pump :: PumpState
  previous_smoothed_percent :: rat
  current_smoothed_percent :: rat
  calendar_day :: nat
  leak_classified :: bool

text \<open>Modelled from the spec: the conversion of the missing tracker, "convert to liters
  via \<open>TankCapacity\<close> if configured; otherwise keep as percent-equivalent".
  \<open>TankCapacity\<close> is the optional number of liters at 100%.\<close>

definition level_equivalent :: "rat option \<Rightarrow> rat \<Rightarrow> rat" where
  "level_equivalent capacity percent =
     (case capacity of None \<Rightarrow> percent | Some liters \<Rightarrow> percent * liters / 100)"

text \<open>Modelled from the spec: a capacity of the missing configuration is a number of
  liters, so it is not negative.\<close>

definition capacity_ok :: "rat option \<Rightarrow> bool" where
  "capacity_ok capacity = (case capacity of None \<Rightarrow> True | Some liters \<Rightarrow> 0 \<le> liters)"

text \<open>Modelled from the spec: the amount the missing tracker attributes to consumption
  on one tick. "On each tick where \<open>PumpState == Off\<close>, compute \<open>delta =
  previous_smoothed_percent - current_smoothed_percent\<close>; if \<open>delta > 0\<close> and no leak
  scan is concurrently classified as a leak, attribute it to consumption"; "negative
  deltas while \<open>Off\<close> are clamped to zero".\<close>

definition attributed :: "rat option \<Rightarrow> TrackerTick \<Rightarrow> rat" where
  "attributed capacity tick =
     (if pump tick = Off then
        (let delta = previous_smoothed_percent tick - current_smoothed_percent tick
         in if delta > 0 \<and> \<not> leak_classified tick
            then level_equivalent capacity delta else 0)
      else 0)"

text \<open>Modelled from the spec: the total of a day in the missing ledger (0 for a day
  that has no entry).\<close>

definition day_total :: "ConsumptionLedger \<Rightarrow> nat \<Rightarrow> rat" where
  "day_total ledger d = (case day_totals ledger d of None \<Rightarrow> 0 | Some amount \<Rightarrow> amount)"

text \<open>Modelled from the spec: the push into the "7-entry rolling history (oldest entry
  evicted, FIFO)" of the missing tracker.\<close>

definition push_history :: "rat list \<Rightarrow> rat \<Rightarrow> rat list" where
  "push_history h amount = (let h' = h @ [amount] in drop (length h' - 7) h')"

text \<open>Modelled from the spec: the day rollover of the missing tracker. "At day
  rollover, finalize the day's entry and push it into the 7-entry rolling history"; "a
  new day boundary finalizes the previous entry and opens a new one".\<close>

definition rollover :: "nat \<Rightarrow> ConsumptionLedger \<Rightarrow> ConsumptionLedger" where
  "rollover today ledger =
     (if today = current_day ledger then ledger
      else ledger\<lparr>history := push_history (history ledger)
                                 (day_total ledger (current_day ledger)),
                  day_totals := (day_totals ledger)(today \<mapsto> day_total ledger today),
                  current_day := today\<rparr>)"

text \<open>Modelled from the spec: one tick of the missing tracker: the rollover when the
  day has changed, then the attribution to the entry of the current calendar day.\<close>

definition track :: "rat option \<Rightarrow> TrackerTick \<Rightarrow> ConsumptionLedger \<Rightarrow> ConsumptionLedger" where
  "track capacity tick ledger =
     (let l = rollover (calendar_day tick) ledger
      in l\<lparr>day_totals := (day_totals l)(current_day l \<mapsto>
              day_total l (current_day l) + attributed capacity tick)\<rparr>)"

text \<open>Modelled from the spec: the missing tracker over a sequence of ticks.\<close>

fun track_all :: "rat option \<Rightarrow> TrackerTick list \<Rightarrow> ConsumptionLedger \<Rightarrow> ConsumptionLedger" where
  "track_all capacity [] ledger = ledger"
| "track_all capacity (tick # ticks) ledger = track_all capacity ticks (track capacity tick ledger)"

text \<open>Modelled from the spec: the prediction of the missing predictor.
  "\<open>days_remaining = current_level_equivalent / avg(last_min(7, available)_days_consumption)\<close>;
  undefined (report insufficient data) when fewer than 1 day of history exists or
  average consumption is zero". \<open>None\<close> is "insufficient data".\<close>

definition days_remaining :: "rat option \<Rightarrow> rat \<Rightarrow> ConsumptionLedger \<Rightarrow> rat option" where
  "days_remaining capacity current_percent ledger =
     (let recent = drop (length (history ledger) - 7) (history ledger)
      in if recent = [] then None
         else (let average = sum_list recent / of_nat (length recent)
               in if average = 0 then None
                  else Some (level_equivalent capacity current_percent / average)))"


section \<open>Properties of the sketch\<close>

subsection \<open>The level mapping\<close>

lemma unat_MAX_minus:
  assumes "distance < MAX_DISTANCE"
  shows "unat (MAX_DISTANCE - distance) = 11 - unat distance"
proof -
  from assms have "distance \<le> MAX_DISTANCE" by simp
  then have "unat (MAX_DISTANCE - distance) = unat MAX_DISTANCE - unat distance"
    by (rule unat_sub)
  then show ?thesis by (simp add: MAX_DISTANCE_def)
qed

lemma unat_MAX_minus_MIN: "unat (MAX_DISTANCE - MIN_DISTANCE) = 7"
  by (simp add: MAX_DISTANCE_def MIN_DISTANCE_def)

lemma rnd_range:
  assumes "float_rounding rnd" and "0 \<le> x" and "x \<le> 1"
  shows "0 \<le> rnd (rnd x * 100) \<and> rnd (rnd x * 100) \<le> 100"
proof -
  from assms(1) have m: "mono rnd" and r0: "rnd 0 = 0" and r1: "rnd 1 = 1"
    and r100: "rnd 100 = 100"
    by (simp_all add: float_rounding_def)
  from m assms(2) have "rnd 0 \<le> rnd x" by (rule monoD)
  with r0 have lo: "0 \<le> rnd x" by simp
  from m assms(3) have "rnd x \<le> rnd 1" by (rule monoD)
  with r1 have hi: "rnd x \<le> 1" by simp
  from lo have "0 \<le> rnd x * 100" by simp
  with m have "rnd 0 \<le> rnd (rnd x * 100)" by (rule monoD)
  moreover from hi have "rnd x * 100 \<le> 100" by simp
  with m have "rnd (rnd x * 100) \<le> rnd 100" by (rule monoD)
  ultimately show ?thesis using r0 r100 by simp
qed

lemma getLevelPercent_range:
  assumes "float_rounding rnd"
  shows "0 \<le> getLevelPercent rnd distance \<and> getLevelPercent rnd distance \<le> 100"
proof (cases "distance = 0 \<or> distance \<le> MIN_DISTANCE \<or> distance \<ge> MAX_DISTANCE")
  case True
  then show ?thesis by (auto simp: getLevelPercent_def)
next
  case False
  then have lt: "distance < MAX_DISTANCE" by (simp add: not_le)
  let ?x = "(of_nat (unat (MAX_DISTANCE - distance)) :: rat)
              / of_nat (unat (MAX_DISTANCE - MIN_DISTANCE))"
  have "0 \<le> ?x" by (rule divide_nonneg_nonneg) (rule of_nat_0_le_iff)+
  moreover from False have "4 < unat distance"
    by (simp add: not_le MIN_DISTANCE_def word_less_nat_alt)
  then have "?x \<le> 1"
    unfolding unat_MAX_minus [OF lt] unat_MAX_minus_MIN by simp
  ultimately have "0 \<le> rnd (rnd ?x * 100) \<and> rnd (rnd ?x * 100) \<le> 100"
    using assms rnd_range by blast
  with False show ?thesis by (simp add: getLevelPercent_def)
qed

lemma getLevelPercent_interp_mono:
  assumes "float_rounding rnd"
    and "d1 \<le> d2" and "d2 < MAX_DISTANCE"
  shows "rnd (rnd (of_nat (unat (MAX_DISTANCE - d2))
                    / of_nat (unat (MAX_DISTANCE - MIN_DISTANCE))) * 100)
       \<le> rnd (rnd (of_nat (unat (MAX_DISTANCE - d1))
                    / of_nat (unat (MAX_DISTANCE - MIN_DISTANCE))) * 100)"
proof -
  from assms(1) have m: "mono rnd" by (simp add: float_rounding_def)
  from assms(2,3) have lt1: "d1 < MAX_DISTANCE" by simp
  from assms(2) have "unat d1 \<le> unat d2" by (simp add: word_le_nat_alt)
  then have "(of_nat (11 - unat d2) :: rat) / 7 \<le> of_nat (11 - unat d1) / 7"
    by (simp add: divide_right_mono)
  with m have "rnd (of_nat (11 - unat d2) / 7) \<le> rnd (of_nat (11 - unat d1) / 7)"
    by (rule monoD)
  then have "rnd (of_nat (11 - unat d2) / 7) * 100 \<le> rnd (of_nat (11 - unat d1) / 7) * 100"
    by simp
  with m have "rnd (rnd (of_nat (11 - unat d2) / 7) * 100)
             \<le> rnd (rnd (of_nat (11 - unat d1) / 7) * 100)"
    by (rule monoD)
  then show ?thesis
    unfolding unat_MAX_minus [OF assms(3)] unat_MAX_minus [OF lt1] unat_MAX_minus_MIN
    by simp
qed

lemma float_rounding_id: "float_rounding id"
  by (simp add: float_rounding_def mono_def)

text \<open>
  C8. The level mapping is antitone on real readings: for distances \<open>d1 \<le> d2\<close> with
  \<open>1 \<le> d1\<close> (so neither is the "no echo" value 0), the level computed for \<open>d2\<close> is at
  most the level computed for \<open>d1\<close>. This holds for every rounding function of a
  floating-point format.
\<close>

theorem getLevelPercent_antimono:
  assumes "float_rounding rnd" and "1 \<le> d1" and "d1 \<le> d2"
  shows "getLevelPercent rnd d2 \<le> getLevelPercent rnd d1"
proof -
  from assms(2) have nz1: "d1 \<noteq> 0" by auto
  with assms(3) have nz2: "d2 \<noteq> 0" by auto
  show ?thesis
  proof (cases "d1 \<le> MIN_DISTANCE")
    case True
    with nz1 have "getLevelPercent rnd d1 = 100" by (simp add: getLevelPercent_def)
    with getLevelPercent_range [OF assms(1), of d2] show ?thesis by simp
  next
    case near1: False
    with assms(3) have near2: "\<not> d2 \<le> MIN_DISTANCE" by auto
    show ?thesis
    proof (cases "d2 < MAX_DISTANCE")
      case True
      with assms(3) have "d1 < MAX_DISTANCE" by simp
      with True have "\<not> MAX_DISTANCE \<le> d1" and "\<not> MAX_DISTANCE \<le> d2"
        by (simp_all add: not_le)
      with nz1 nz2 near1 near2 getLevelPercent_interp_mono [OF assms(1) assms(3) True]
      show ?thesis by (simp add: getLevelPercent_def)
    next
      case False
      then have "MAX_DISTANCE \<le> d2" by (simp add: not_less)
      with nz2 near2 have "getLevelPercent rnd d2 = 0"
        by (simp add: getLevelPercent_def)
      with getLevelPercent_range [OF assms(1), of d1] show ?thesis by simp
    qed
  qed
qed

theorem getLevelPercent_antimono_witness:
  "float_rounding id \<and> (1 :: 16 word) \<le> 5 \<and> (5 :: 16 word) \<le> 9
   \<and> getLevelPercent id 9 \<le> getLevelPercent id 5
   \<and> getLevelPercent id 9 = 200 / 7 \<and> getLevelPercent id 5 = 600 / 7"
proof -
  have h1: "(1 :: 16 word) \<le> 5" and h2: "(5 :: 16 word) \<le> 9" by simp_all
  from getLevelPercent_antimono [OF float_rounding_id h1 h2] float_rounding_id h1 h2
  show ?thesis
    by (simp add: getLevelPercent_def MIN_DISTANCE_def MAX_DISTANCE_def)
qed

text \<open>
  C4, as the claim states it, fails for the reading 0: it is at or below
  \<open>MIN_DISTANCE\<close>, and the level is 0, not 100.
\<close>

theorem getLevelPercent_zero_counterexample:
  "(0 :: 16 word) \<le> MIN_DISTANCE \<and> getLevelPercent id 0 = 0 \<and> getLevelPercent id 0 \<noteq> 100"
  by (simp add: getLevelPercent_def)

text \<open>
  C4 (amended). For every distance reading the level is in [0, 100]: the reading 0 (no
  echo) yields 0, readings from 1 to \<open>MIN_DISTANCE\<close> yield 100, readings at or above
  \<open>MAX_DISTANCE\<close> yield 0, and a reading in between yields the linear interpolation
  \<open>(MAX_DISTANCE - distance) / (MAX_DISTANCE - MIN_DISTANCE) * 100\<close>, computed in
  floating point.
\<close>

theorem getLevelPercent_clamped:
  assumes "float_rounding rnd"
  shows "0 \<le> getLevelPercent rnd distance \<and> getLevelPercent rnd distance \<le> 100
    \<and> (distance = 0 \<longrightarrow> getLevelPercent rnd distance = 0)
    \<and> (1 \<le> distance \<and> distance \<le> MIN_DISTANCE \<longrightarrow> getLevelPercent rnd distance = 100)
    \<and> (MAX_DISTANCE \<le> distance \<longrightarrow> getLevelPercent rnd distance = 0)
    \<and> (MIN_DISTANCE < distance \<and> distance < MAX_DISTANCE \<longrightarrow>
         getLevelPercent rnd distance =
           rnd (rnd (of_nat (unat MAX_DISTANCE - unat distance)
                      / of_nat (unat MAX_DISTANCE - unat MIN_DISTANCE)) * 100))"
proof -
  have "distance = 0 \<longrightarrow> getLevelPercent rnd distance = 0"
    by (simp add: getLevelPercent_def)
  moreover have "1 \<le> distance \<and> distance \<le> MIN_DISTANCE \<longrightarrow> getLevelPercent rnd distance = 100"
    by (auto simp: getLevelPercent_def)
  moreover have "MAX_DISTANCE \<le> distance \<longrightarrow> getLevelPercent rnd distance = 0"
  proof
    assume "MAX_DISTANCE \<le> distance"
    moreover from this have "\<not> distance \<le> MIN_DISTANCE"
      by (simp add: MIN_DISTANCE_def MAX_DISTANCE_def word_le_nat_alt)
    ultimately show "getLevelPercent rnd distance = 0"
      by (simp add: getLevelPercent_def)
  qed
  moreover have "MIN_DISTANCE < distance \<and> distance < MAX_DISTANCE \<longrightarrow>
         getLevelPercent rnd distance =
           rnd (rnd (of_nat (unat MAX_DISTANCE - unat distance)
                      / of_nat (unat MAX_DISTANCE - unat MIN_DISTANCE)) * 100)"
  proof
    assume b: "MIN_DISTANCE < distance \<and> distance < MAX_DISTANCE"
    then have "distance \<noteq> 0" and "\<not> distance \<le> MIN_DISTANCE" and "\<not> MAX_DISTANCE \<le> distance"
      by (auto simp: MIN_DISTANCE_def)
    moreover from b have "distance \<le> MAX_DISTANCE" by (intro less_imp_le) simp
    moreover have "MIN_DISTANCE \<le> MAX_DISTANCE"
      by (simp add: MIN_DISTANCE_def MAX_DISTANCE_def)
    ultimately show "getLevelPercent rnd distance =
           rnd (rnd (of_nat (unat MAX_DISTANCE - unat distance)
                      / of_nat (unat MAX_DISTANCE - unat MIN_DISTANCE)) * 100)"
      by (simp only: getLevelPercent_def if_False unat_sub)
  qed
  ultimately show ?thesis using getLevelPercent_range [OF assms, of distance] by blast
qed

theorem getLevelPercent_clamped_witness:
  "float_rounding id
   \<and> getLevelPercent id 0 = 0 \<and> getLevelPercent id 3 = 100 \<and> getLevelPercent id 4 = 100
   \<and> getLevelPercent id 7 = 400 / 7 \<and> getLevelPercent id 11 = 0 \<and> getLevelPercent id 300 = 0
   \<and> 0 \<le> getLevelPercent id 7 \<and> getLevelPercent id 7 \<le> 100"
  using getLevelPercent_clamped [OF float_rounding_id, of 0]
    getLevelPercent_clamped [OF float_rounding_id, of 3]
    getLevelPercent_clamped [OF float_rounding_id, of 4]
    getLevelPercent_clamped [OF float_rounding_id, of 7]
    getLevelPercent_clamped [OF float_rounding_id, of 11]
    getLevelPercent_clamped [OF float_rounding_id, of 300]
    float_rounding_id
  by (simp add: MIN_DISTANCE_def MAX_DISTANCE_def)


subsection \<open>The loop and the actuator\<close>

lemma loop_fields:
  "serial_tx (loop rnd distance s) =
     serial_tx s @ [(getLevelPercent rnd distance, prev_pump_state s)]"
  "elapsed_ms (loop rnd distance s) = elapsed_ms s + 500"
  by (simp_all add: loop_def Let_def controlPump_def split: list.split)

text \<open>On every reachable state the relay pin and the recorded pump state agree.\<close>

lemma reachable_relay:
  "reachable s \<Longrightarrow>
     (prev_pump_state s = 0 \<and> relay_pin s = LOW) \<or> (prev_pump_state s = 1 \<and> relay_pin s = HIGH)"
proof (induction rule: reachable.induct)
  case start
  show ?case by (simp add: sketch_setup_def RELAY_ACTIVE_HIGH_def)
next
  case (bytes s bs)
  then show ?case by (simp add: receive_def)
next
  case (pass s rnd distance)
  then show ?case
    by (cases "serial_rx s")
      (auto simp: loop_def Let_def controlPump_def RELAY_ACTIVE_HIGH_def)
qed

text \<open>
  C1, as the claim states it, fails: after a tick that reported the level 100 (distance
  3, a full tank), a tick whose ping returns 0 reports the level 0, not the previous
  value.
\<close>

theorem loop_dropout_counterexample:
  "map fst (serial_tx (loop id 0 (loop id 3 sketch_setup))) = [100, 0]"
  by (simp add: loop_fields getLevelPercent_def MIN_DISTANCE_def MAX_DISTANCE_def
      sketch_setup_def)

text \<open>
  C1 (amended). The level sent on a tick is \<open>getLevelPercent\<close> of that tick's reading
  alone, whatever was sent before: the sketch keeps no previous level. A missing
  reading (the ping returns 0) is sent as the level 0, the value of an empty tank.
\<close>

theorem loop_level_of_reading:
  "serial_tx (loop rnd distance s) =
     serial_tx s @ [(getLevelPercent rnd distance, prev_pump_state s)]
   \<and> serial_tx (loop rnd 0 s) = serial_tx s @ [(0, prev_pump_state s)]
   \<and> getLevelPercent rnd 0 = getLevelPercent rnd MAX_DISTANCE"
  by (simp add: loop_fields getLevelPercent_def MIN_DISTANCE_def MAX_DISTANCE_def)

text \<open>
  C7. \<open>controlPump\<close> is idempotent: executing a command byte twice leaves the board
  (relay pin, LED pin, recorded pump state and everything else) as executing it once
  does. This holds for the commands \<open>0\<close> and \<open>1\<close> and for every other byte, which
  changes nothing.
\<close>

theorem controlPump_idempotent:
  "controlPump cmd (controlPump cmd s) = controlPump cmd s"
  by (simp add: controlPump_def)

text \<open>
  C2, as the claim states it, fails: the pump is switched on by the command \<open>1\<close> and
  switched off by the command \<open>0\<close> on the next pass of the loop, 500 ms later, at the
  level 0. No minimum run time of a second or more has passed, and the level is below
  every overfill threshold.
\<close>

theorem loop_off_early_counterexample:
  "prev_pump_state pump_on_state = 1 \<and> relay_pin pump_on_state = HIGH
   \<and> prev_pump_state pump_off_state = 0 \<and> relay_pin pump_off_state = LOW
   \<and> elapsed_ms pump_off_state = elapsed_ms pump_on_state + 500
   \<and> snd (last (serial_tx pump_off_state)) = 1
   \<and> fst (last (serial_tx pump_off_state)) = 0"
  by (simp add: pump_off_state_def pump_on_state_def loop_def Let_def receive_def
      controlPump_def sketch_setup_def RELAY_ACTIVE_HIGH_def getLevelPercent_def
      MIN_DISTANCE_def MAX_DISTANCE_def)

text \<open>
  C2 (amended). Once the pump is on, a pass of the loop switches it off exactly when
  the next pending serial byte is \<open>0\<close>, and then the relay is released. Neither the
  level read on that pass nor the time that has passed plays a part: the sketch has no
  minimum run time and no overfill threshold.
\<close>

theorem loop_off_iff_command:
  assumes "prev_pump_state s = 1"
  shows "(prev_pump_state (loop rnd distance s) = 0 \<longleftrightarrow> take 1 (serial_rx s) = ''0'')
    \<and> (take 1 (serial_rx s) = ''0'' \<longrightarrow> relay_pin (loop rnd distance s) = LOW)
    \<and> prev_pump_state (loop rnd' distance' (s\<lparr>elapsed_ms := t\<rparr>))
        = prev_pump_state (loop rnd distance s)"
proof (cases "serial_rx s")
  case Nil
  with assms show ?thesis by (simp add: loop_def Let_def)
next
  case (Cons c rest)
  with assms show ?thesis
    by (simp add: loop_def Let_def controlPump_def RELAY_ACTIVE_HIGH_def)
qed

theorem loop_off_iff_command_witness:
  "prev_pump_state (receive ''0'' pump_on_state) = 1
   \<and> take 1 (serial_rx (receive ''0'' pump_on_state)) = ''0''
   \<and> prev_pump_state (loop id 7 (receive ''0'' pump_on_state)) = 0
   \<and> relay_pin (loop id 7 (receive ''0'' pump_on_state)) = LOW"
proof -
  have on: "prev_pump_state (receive ''0'' pump_on_state) = 1"
    by (simp add: pump_on_state_def loop_def Let_def receive_def controlPump_def
        sketch_setup_def)
  have rx: "take 1 (serial_rx (receive ''0'' pump_on_state)) = ''0''"
    by (simp add: pump_on_state_def loop_def Let_def receive_def controlPump_def
        sketch_setup_def)
  from loop_off_iff_command [OF on, of id 7] on rx show ?thesis by simp
qed

text \<open>
  C3, as the claim states it, fails in both directions: with the level at 100 and the
  pump off, the command \<open>1\<close> switches the pump on; with the level at 0 and the pump off
  for an hour, the pump stays off when no command is pending.
\<close>

theorem loop_transition_counterexample:
  "getLevelPercent id 3 = 100
   \<and> prev_pump_state (receive ''1'' sketch_setup) = 0
   \<and> prev_pump_state (loop id 3 (receive ''1'' sketch_setup)) = 1
   \<and> getLevelPercent id 11 = 0
   \<and> prev_pump_state (sketch_setup\<lparr>elapsed_ms := 3600000\<rparr>) = 0
   \<and> prev_pump_state (loop id 11 (sketch_setup\<lparr>elapsed_ms := 3600000\<rparr>)) = 0"
  by (simp add: loop_def Let_def receive_def controlPump_def sketch_setup_def
      getLevelPercent_def MIN_DISTANCE_def MAX_DISTANCE_def)

text \<open>
  C3 (amended). The pump state of the sketch has exactly these transitions: on a pass
  of the loop, Off changes to On if and only if the next pending serial byte is \<open>1\<close>,
  and On changes to Off if and only if it is \<open>0\<close>; when no byte is pending, or the
  byte is neither, no transition occurs and the relay pin, the LED pin and the recorded
  pump state are left as they are. The level and the time in the state play no part.
\<close>

theorem loop_transitions:
  "(prev_pump_state s = 0 \<longrightarrow>
      (prev_pump_state (loop rnd distance s) = 1 \<longleftrightarrow> take 1 (serial_rx s) = ''1''))
   \<and> (prev_pump_state s = 1 \<longrightarrow>
      (prev_pump_state (loop rnd distance s) = 0 \<longleftrightarrow> take 1 (serial_rx s) = ''0''))
   \<and> (take 1 (serial_rx s) = ''1'' \<longrightarrow>
      relay_pin (loop rnd distance s) = HIGH \<and> prev_pump_state (loop rnd distance s) = 1)
   \<and> (take 1 (serial_rx s) = ''0'' \<longrightarrow>
      relay_pin (loop rnd distance s) = LOW \<and> prev_pump_state (loop rnd distance s) = 0)
   \<and> (take 1 (serial_rx s) \<noteq> ''0'' \<and> take 1 (serial_rx s) \<noteq> ''1'' \<longrightarrow>
      relay_pin (loop rnd distance s) = relay_pin s
      \<and> led_pin (loop rnd distance s) = led_pin s
      \<and> prev_pump_state (loop rnd distance s) = prev_pump_state s)"
proof (cases "serial_rx s")
  case Nil
  then show ?thesis by (simp add: loop_def Let_def)
next
  case (Cons c rest)
  then show ?thesis
    by (simp add: loop_def Let_def controlPump_def RELAY_ACTIVE_HIGH_def)
qed

theorem loop_transitions_witness:
  "prev_pump_state (receive ''1'' sketch_setup) = 0
   \<and> take 1 (serial_rx (receive ''1'' sketch_setup)) = ''1''
   \<and> prev_pump_state (loop id 3 (receive ''1'' sketch_setup)) = 1
   \<and> relay_pin (loop id 3 (receive ''1'' sketch_setup)) = HIGH
   \<and> take 1 (serial_rx (receive ''x'' pump_on_state)) = ''x''
   \<and> prev_pump_state (loop id 3 (receive ''x'' pump_on_state)) = prev_pump_state pump_on_state
   \<and> relay_pin (loop id 3 (receive ''x'' pump_on_state)) = relay_pin pump_on_state"
proof -
  have a: "prev_pump_state (receive ''1'' sketch_setup) = 0"
    and b: "take 1 (serial_rx (receive ''1'' sketch_setup)) = ''1''"
    by (simp_all add: receive_def sketch_setup_def)
  have c: "take 1 (serial_rx (receive ''x'' pump_on_state)) = ''x''"
    and d: "prev_pump_state (receive ''x'' pump_on_state) = prev_pump_state pump_on_state"
    and e: "relay_pin (receive ''x'' pump_on_state) = relay_pin pump_on_state"
    and f: "led_pin (receive ''x'' pump_on_state) = led_pin pump_on_state"
    by (simp_all add: pump_on_state_def loop_def Let_def receive_def controlPump_def
        sketch_setup_def)
  from loop_transitions [of "receive ''1'' sketch_setup" id 3]
    loop_transitions [of "receive ''x'' pump_on_state" id 3] a b c d e f
  show ?thesis by simp
qed


section \<open>Properties of the dashboard\<close>

subsection \<open>Reported issues\<close>

text \<open>
  C10. \<open>toggleResolved\<close> preserves the frame: the list keeps its length and order; an
  issue whose id matches is replaced by itself with the \<open>resolved\<close> field negated and
  every other field (also a member the type does not name) unchanged; every other issue
  is unchanged. The new list is what the component holds and what is saved under the
  storage key, and no other key of the storage changes.
\<close>

theorem toggleResolved_frame:
  "length (issues (toggleResolved stringify ident v)) = length (issues v)
   \<and> (\<forall>k < length (issues v).
        (id' (issues v ! k) = ident \<longrightarrow>
           issues (toggleResolved stringify ident v) ! k
             = (issues v ! k)\<lparr>resolved := \<not> resolved (issues v ! k)\<rparr>)
      \<and> (id' (issues v ! k) \<noteq> ident \<longrightarrow>
           issues (toggleResolved stringify ident v) ! k = issues v ! k)
      \<and> id' (issues (toggleResolved stringify ident v) ! k) = id' (issues v ! k)
      \<and> title (issues (toggleResolved stringify ident v) ! k) = title (issues v ! k)
      \<and> description (issues (toggleResolved stringify ident v) ! k)
          = description (issues v ! k)
      \<and> category (issues (toggleResolved stringify ident v) ! k) = category (issues v ! k)
      \<and> timestamp (issues (toggleResolved stringify ident v) ! k)
          = timestamp (issues v ! k)
      \<and> Issue.username (issues (toggleResolved stringify ident v) ! k)
          = Issue.username (issues v ! k)
      \<and> Issue.more (issues (toggleResolved stringify ident v) ! k)
          = Issue.more (issues v ! k))
   \<and> storage (toggleResolved stringify ident v) LOCAL_STORAGE_KEY
       = Some (stringify (issues (toggleResolved stringify ident v)))
   \<and> (\<forall>key. key \<noteq> LOCAL_STORAGE_KEY \<longrightarrow>
        storage (toggleResolved stringify ident v) key = storage v key)"
  by (simp add: toggleResolved_def Let_def saveIssues_def)

theorem toggleResolved_frame_witness:
  "issues (toggleResolved (\<lambda>xs. ''saved'') ''a''
     \<lparr>issues = [\<lparr>id' = ''a'', title = ''drip'', description = ''tap'', category = Leak,
                  timestamp = ''t1'', username = ''ann'', resolved = False\<rparr>,
                 \<lparr>id' = ''b'', title = ''noise'', description = ''hum'', category = Pump,
                  timestamp = ''t2'', username = ''bob'', resolved = False\<rparr>],
      storage = Map.empty\<rparr>)
   = [\<lparr>id' = ''a'', title = ''drip'', description = ''tap'', category = Leak,
       timestamp = ''t1'', username = ''ann'', resolved = True\<rparr>,
      \<lparr>id' = ''b'', title = ''noise'', description = ''hum'', category = Pump,
       timestamp = ''t2'', username = ''bob'', resolved = False\<rparr>]"
  using toggleResolved_frame [of "\<lambda>xs. ''saved''" "''a''"
      "\<lparr>issues = [\<lparr>id' = ''a'', title = ''drip'', description = ''tap'', category = Leak,
                  timestamp = ''t1'', username = ''ann'', resolved = False\<rparr>,
                 \<lparr>id' = ''b'', title = ''noise'', description = ''hum'', category = Pump,
                  timestamp = ''t2'', username = ''bob'', resolved = False\<rparr>],
        storage = Map.empty\<rparr>"]
  by (simp add: toggleResolved_def Let_def)


subsection \<open>Stored credentials\<close>

lemma get_property_creds_object:
  "get_property (creds_object creds) ''username'' = Inr (Some (JStr (BasicCreds.username creds)))"
  "get_property (creds_object creds) ''password'' = Inr (Some (JStr (BasicCreds.password creds)))"
  by (simp_all add: creds_object_def)

lemma loadCredentials_Some:
  assumes "loadCredentials parse env = Some v"
  shows "\<exists>raw u p. window_defined env
      \<and> localStorage env ''water-tank-creds'' = Some raw \<and> raw \<noteq> [] \<and> parse raw = Inr v
      \<and> get_property v ''username'' = Inr u \<and> truthy u
      \<and> get_property v ''password'' = Inr p \<and> truthy p"
  using assms
  by (auto simp: loadCredentials_def split: if_splits option.splits sum.splits)

lemma truthy_not_empty: "truthy u \<Longrightarrow> u \<noteq> None \<and> u \<noteq> Some (JStr [])"
  by (cases u) auto

text \<open>
  C9. In the browser (where \<open>window\<close> is defined), for credentials with a non-empty
  username and a non-empty password, \<open>loadCredentials\<close> after \<open>persistCredentials\<close>
  returns an equal pair, given that \<^verbatim>\<open>JSON.parse\<close> reads back what \<^verbatim>\<open>JSON.stringify\<close>
  wrote for the pair. And whatever the storage holds and whatever \<^verbatim>\<open>JSON.parse\<close> does,
  a value that \<open>loadCredentials\<close> returns has a username and a password that are
  present and not empty; it returns \<^verbatim>\<open>null\<close> on missing data (no entry, or an empty
  one), on unparsable data, and on data where the username or the password is absent
  or empty.
\<close>

theorem loadCredentials_round_trip:
  "(window_defined env \<and> BasicCreds.username creds \<noteq> [] \<and> BasicCreds.password creds \<noteq> []
      \<and> JSON_reads_back parse stringify (creds_object creds) \<longrightarrow>
        loadCredentials parse (persistCredentials stringify creds env)
          = Some (creds_object creds))
   \<and> (loadCredentials parse env = Some v \<longrightarrow>
        (\<exists>u p. get_property v ''username'' = Inr u \<and> get_property v ''password'' = Inr p
           \<and> truthy u \<and> truthy p
           \<and> u \<noteq> None \<and> u \<noteq> Some (JStr []) \<and> p \<noteq> None \<and> p \<noteq> Some (JStr [])))
   \<and> (localStorage env ''water-tank-creds'' = None
        \<or> localStorage env ''water-tank-creds'' = Some [] \<longrightarrow>
        loadCredentials parse env = None)
   \<and> (\<forall>raw e. localStorage env ''water-tank-creds'' = Some raw \<and> parse raw = Inl e \<longrightarrow>
        loadCredentials parse env = None)
   \<and> (\<forall>raw parsed. localStorage env ''water-tank-creds'' = Some raw
          \<and> parse raw = Inr parsed
          \<and> (\<not> (\<exists>u. get_property parsed ''username'' = Inr u \<and> truthy u)
             \<or> \<not> (\<exists>p. get_property parsed ''password'' = Inr p \<and> truthy p)) \<longrightarrow>
        loadCredentials parse env = None)"
proof (intro conjI)
  show "window_defined env \<and> BasicCreds.username creds \<noteq> [] \<and> BasicCreds.password creds \<noteq> []
      \<and> JSON_reads_back parse stringify (creds_object creds) \<longrightarrow>
        loadCredentials parse (persistCredentials stringify creds env)
          = Some (creds_object creds)"
    by (simp add: loadCredentials_def persistCredentials_def JSON_reads_back_def
        get_property_creds_object)
next
  show "loadCredentials parse env = Some v \<longrightarrow>
        (\<exists>u p. get_property v ''username'' = Inr u \<and> get_property v ''password'' = Inr p
           \<and> truthy u \<and> truthy p
           \<and> u \<noteq> None \<and> u \<noteq> Some (JStr []) \<and> p \<noteq> None \<and> p \<noteq> Some (JStr []))"
  proof
    assume "loadCredentials parse env = Some v"
    from loadCredentials_Some [OF this] obtain u p
      where "get_property v ''username'' = Inr u" and "truthy u"
        and "get_property v ''password'' = Inr p" and "truthy p"
      by blast
    with truthy_not_empty [of u] truthy_not_empty [of p]
    show "\<exists>u p. get_property v ''username'' = Inr u \<and> get_property v ''password'' = Inr p
           \<and> truthy u \<and> truthy p
           \<and> u \<noteq> None \<and> u \<noteq> Some (JStr []) \<and> p \<noteq> None \<and> p \<noteq> Some (JStr [])"
      by blast
  qed
next
  show "localStorage env ''water-tank-creds'' = None
        \<or> localStorage env ''water-tank-creds'' = Some [] \<longrightarrow>
        loadCredentials parse env = None"
    by (auto simp: loadCredentials_def)
next
  show "\<forall>raw e. localStorage env ''water-tank-creds'' = Some raw \<and> parse raw = Inl e \<longrightarrow>
        loadCredentials parse env = None"
    by (auto simp: loadCredentials_def)
next
  show "\<forall>raw parsed. localStorage env ''water-tank-creds'' = Some raw
          \<and> parse raw = Inr parsed
          \<and> (\<not> (\<exists>u. get_property parsed ''username'' = Inr u \<and> truthy u)
             \<or> \<not> (\<exists>p. get_property parsed ''password'' = Inr p \<and> truthy p)) \<longrightarrow>
        loadCredentials parse env = None"
    by (auto simp: loadCredentials_def split: sum.splits)
qed

theorem loadCredentials_round_trip_witness:
  "window_defined \<lparr>window_defined = True, localStorage = Map.empty\<rparr>
   \<and> JSON_reads_back
        (\<lambda>text. if text = ''ann:pw''
           then Inr (creds_object \<lparr>BasicCreds.username = ''ann'', BasicCreds.password = ''pw''\<rparr>)
           else Inl SyntaxError)
        (\<lambda>v. ''ann:pw'') (creds_object \<lparr>BasicCreds.username = ''ann'', BasicCreds.password = ''pw''\<rparr>)
   \<and> loadCredentials
        (\<lambda>text. if text = ''ann:pw''
           then Inr (creds_object \<lparr>BasicCreds.username = ''ann'', BasicCreds.password = ''pw''\<rparr>)
           else Inl SyntaxError)
        (persistCredentials (\<lambda>v. ''ann:pw'') \<lparr>BasicCreds.username = ''ann'', BasicCreds.password = ''pw''\<rparr>
           \<lparr>window_defined = True, localStorage = Map.empty\<rparr>)
      = Some (JObj [(''username'', JStr ''ann''), (''password'', JStr ''pw'')])"
proof -
  let ?parse = "\<lambda>text. if text = ''ann:pw''
           then Inr (creds_object \<lparr>BasicCreds.username = ''ann'', BasicCreds.password = ''pw''\<rparr>)
           else Inl SyntaxError"
  have rb: "JSON_reads_back ?parse (\<lambda>v. ''ann:pw'')
      (creds_object \<lparr>BasicCreds.username = ''ann'', BasicCreds.password = ''pw''\<rparr>)"
    by (simp add: JSON_reads_back_def)
  from loadCredentials_round_trip [of "\<lparr>window_defined = True, localStorage = Map.empty\<rparr>"
      "\<lparr>BasicCreds.username = ''ann'', BasicCreds.password = ''pw''\<rparr>" ?parse "\<lambda>v. ''ann:pw''"] rb
  show ?thesis by (simp add: creds_object_def)
qed


section \<open>Properties of the consumption tracker and predictor\<close>

lemma attributed_nonneg: "capacity_ok capacity \<Longrightarrow> 0 \<le> attributed capacity tick"
  by (cases capacity) (simp_all add: attributed_def capacity_ok_def level_equivalent_def Let_def)

lemma attributed_rise:
  "pump tick = Off \<Longrightarrow> previous_smoothed_percent tick < current_smoothed_percent tick
     \<Longrightarrow> attributed capacity tick = 0"
  by (simp add: attributed_def Let_def)

lemma day_total_rollover: "day_total (rollover today ledger) d = day_total ledger d"
  by (simp add: rollover_def day_total_def)

lemma day_total_track:
  "day_total (track capacity tick ledger) d =
     (if d = calendar_day tick then day_total ledger d + attributed capacity tick
      else day_total ledger d)"
proof -
  have "current_day (rollover (calendar_day tick) ledger) = calendar_day tick"
    by (simp add: rollover_def)
  then show ?thesis
    using day_total_rollover [of "calendar_day tick" ledger]
    by (simp add: track_def Let_def day_total_def)
qed

lemma day_total_track_mono:
  "capacity_ok capacity \<Longrightarrow> day_total ledger d \<le> day_total (track capacity tick ledger) d"
  using attributed_nonneg [of capacity tick] by (simp add: day_total_track)

lemma day_total_track_all_mono:
  "capacity_ok capacity \<Longrightarrow> day_total ledger d \<le> day_total (track_all capacity ticks ledger) d"
proof (induction ticks arbitrary: ledger)
  case Nil
  then show ?case by simp
next
  case (Cons tick ticks)
  have "day_total ledger d \<le> day_total (track capacity tick ledger) d"
    using Cons.prems by (rule day_total_track_mono)
  also have "\<dots> \<le> day_total (track_all capacity ticks (track capacity tick ledger)) d"
    using Cons.prems by (rule Cons.IH)
  finally show ?case by simp
qed

text \<open>
  C5. The totals of the ledger never decrease. On a tick with the pump off where the
  current smoothed level exceeds the previous one, nothing is attributed and every
  day's total stays as it is, whatever the capacity; the tick with previous 40,
  current 41 and the pump off attributes zero. With a capacity that is absent or
  not negative, the amount attributed on a tick is never negative, and every day's
  total after a tick, and after any sequence of ticks, is at least what it was.
\<close>

theorem ledger_never_decreases:
  "(pump tick = Off \<and> previous_smoothed_percent tick < current_smoothed_percent tick \<longrightarrow>
      attributed capacity tick = 0
      \<and> day_total (track capacity tick ledger) d = day_total ledger d)
   \<and> attributed capacity
        \<lparr>pump = Off, previous_smoothed_percent = 40, current_smoothed_percent = 41,
         calendar_day = today, leak_classified = leak\<rparr> = 0
   \<and> (capacity_ok capacity \<longrightarrow>
        0 \<le> attributed capacity tick
        \<and> day_total ledger d \<le> day_total (track capacity tick ledger) d
        \<and> day_total ledger d \<le> day_total (track_all capacity ticks ledger) d)"
proof (intro conjI impI)
  assume rise: "pump tick = Off \<and> previous_smoothed_percent tick < current_smoothed_percent tick"
  then show zero: "attributed capacity tick = 0" by (simp add: attributed_rise)
  then show "day_total (track capacity tick ledger) d = day_total ledger d"
    by (simp add: day_total_track)
next
  show "attributed capacity
        \<lparr>pump = Off, previous_smoothed_percent = 40, current_smoothed_percent = 41,
         calendar_day = today, leak_classified = leak\<rparr> = 0"
    by (simp add: attributed_def)
next
  assume "capacity_ok capacity"
  then show "0 \<le> attributed capacity tick" by (rule attributed_nonneg)
next
  assume "capacity_ok capacity"
  then show "day_total ledger d \<le> day_total (track capacity tick ledger) d"
    by (rule day_total_track_mono)
next
  assume "capacity_ok capacity"
  then show "day_total ledger d \<le> day_total (track_all capacity ticks ledger) d"
    by (rule day_total_track_all_mono)
qed

theorem ledger_never_decreases_witness:
  "capacity_ok (Some 1000)
   \<and> pump \<lparr>pump = Off, previous_smoothed_percent = 40, current_smoothed_percent = 41,
            calendar_day = 3, leak_classified = False\<rparr> = Off
   \<and> attributed (Some 1000)
        \<lparr>pump = Off, previous_smoothed_percent = 40, current_smoothed_percent = 41,
         calendar_day = 3, leak_classified = False\<rparr> = 0
   \<and> day_total (track (Some 1000)
        \<lparr>pump = Off, previous_smoothed_percent = 40, current_smoothed_percent = 41,
         calendar_day = 3, leak_classified = False\<rparr>
        \<lparr>day_totals = [3 \<mapsto> 10], history = [], current_day = 3\<rparr>) 3 = 10
   \<and> day_total (track_all (Some 1000)
        [\<lparr>pump = Off, previous_smoothed_percent = 45, current_smoothed_percent = 40,
          calendar_day = 3, leak_classified = False\<rparr>,
         \<lparr>pump = Off, previous_smoothed_percent = 40, current_smoothed_percent = 41,
          calendar_day = 3, leak_classified = False\<rparr>]
        \<lparr>day_totals = [3 \<mapsto> 10], history = [], current_day = 3\<rparr>) 3 = 60"
  using ledger_never_decreases [of
      "\<lparr>pump = Off, previous_smoothed_percent = 40, current_smoothed_percent = 41,
        calendar_day = 3, leak_classified = False\<rparr>"
      "Some 1000" "\<lparr>day_totals = [3 \<mapsto> 10], history = [], current_day = 3\<rparr>" 3 3 False
      "[\<lparr>pump = Off, previous_smoothed_percent = 45, current_smoothed_percent = 40,
          calendar_day = 3, leak_classified = False\<rparr>,
         \<lparr>pump = Off, previous_smoothed_percent = 40, current_smoothed_percent = 41,
          calendar_day = 3, leak_classified = False\<rparr>]"]
  by (simp add: capacity_ok_def attributed_def level_equivalent_def day_total_def track_def
      rollover_def Let_def)

text \<open>
  C6. The prediction is the current level equivalent divided by the average of the last
  \<open>min 7 n\<close> entries of a history of \<open>n\<close> finalized days, and it is "insufficient
  data" exactly when the history is empty or that average is zero. With one day of
  history on which 5% was consumed and a current level of 50% it is 10 days, in
  percent and, for a capacity above zero, in liters. With no history it is
  "insufficient data".
\<close>

theorem days_remaining_prediction:
  "days_remaining capacity current_percent ledger =
     (let available = length (history ledger);
          recent = drop (available - min 7 available) (history ledger);
          average = sum_list recent / of_nat (min 7 available)
      in if available < 1 \<or> average = 0 then None
         else Some (level_equivalent capacity current_percent / average))
   \<and> days_remaining None 50 (ledger\<lparr>history := [5]\<rparr>) = Some 10
   \<and> (0 < liters \<longrightarrow>
        days_remaining (Some liters) 50
          (ledger\<lparr>history := [level_equivalent (Some liters) 5]\<rparr>) = Some 10)
   \<and> days_remaining capacity current_percent (ledger\<lparr>history := []\<rparr>) = None"
proof (intro conjI impI)
  have len: "length (drop (length (history ledger) - 7) (history ledger))
      = min 7 (length (history ledger))"
    by simp
  have same: "length (history ledger) - min 7 (length (history ledger))
      = length (history ledger) - 7"
    by simp
  show "days_remaining capacity current_percent ledger =
     (let available = length (history ledger);
          recent = drop (available - min 7 available) (history ledger);
          average = sum_list recent / of_nat (min 7 available)
      in if available < 1 \<or> average = 0 then None
         else Some (level_equivalent capacity current_percent / average))"
  proof (cases "history ledger = []")
    case True
    then show ?thesis by (simp add: days_remaining_def)
  next
    case False
    then have "0 < length (history ledger)" by simp
    then have "length (history ledger) - 7 < length (history ledger)" by arith
    then have "drop (length (history ledger) - 7) (history ledger) \<noteq> []" by simp
    with False show ?thesis
      unfolding days_remaining_def Let_def same len by simp
  qed
next
  show "days_remaining None 50 (ledger\<lparr>history := [5]\<rparr>) = Some 10"
    by (simp add: days_remaining_def level_equivalent_def)
next
  assume "0 < liters"
  then show "days_remaining (Some liters) 50
          (ledger\<lparr>history := [level_equivalent (Some liters) 5]\<rparr>) = Some 10"
    by (simp add: days_remaining_def level_equivalent_def)
next
  show "days_remaining capacity current_percent (ledger\<lparr>history := []\<rparr>) = None"
    by (simp add: days_remaining_def)
qed

theorem days_remaining_prediction_witness:
  "(0 :: rat) < 1000
   \<and> days_remaining (Some 1000) 50
        \<lparr>day_totals = Map.empty, history = [50], current_day = 1\<rparr> = Some 10
   \<and> days_remaining None 50
        \<lparr>day_totals = Map.empty, history = [1, 2, 3, 4, 5, 6, 7, 8], current_day = 8\<rparr>
      = Some 10
   \<and> days_remaining None 50
        \<lparr>day_totals = Map.empty, history = [0, 0], current_day = 2\<rparr> = None"
  using days_remaining_prediction [of "Some 1000" 50
      "\<lparr>day_totals = Map.empty, history = [50], current_day = 1\<rparr>" 1000]
    days_remaining_prediction [of None 50
      "\<lparr>day_totals = Map.empty, history = [1, 2, 3, 4, 5, 6, 7, 8], current_day = 8\<rparr>"]
    days_remaining_prediction [of None 50
      "\<lparr>day_totals = Map.empty, history = [0, 0], current_day = 2\<rparr>"]
  by (simp add: level_equivalent_def Let_def)

end
